theory Spec2Isabelle
  imports Main "HOL-Library.Word"
begin

unbundle bit_operations_syntax

section \<open>The region decoder of BitmapRegionDecoder.cpp\<close>

text \<open>
  The file drives an image decoder of the Skia library through a narrow interface and
  hands results to Java through JNI. The embedding keeps the control flow of the file as
  it is written. What the file calls but does not define (the Skia decoder, the helpers
  of GraphicsJNI and BitmapFactory) is a parameter: the record \<open>skia\<close> below holds one
  function per external operation, and every definition of the file takes it as its
  first argument. Native objects live in an explicit store, so that handles, deletion
  and the state a call leaves behind can be stated.
\<close>

subsection \<open>Data\<close>

text \<open>\<open>jint\<close> and the C++ \<open>int\<close> of the file are 32-bit; \<open>+\<close> on words wraps.\<close>

type_synonym jint = "32 word"

text \<open>An address of a native object: an index into a store of the world below.\<close>

type_synonym addr = nat

text \<open>
  A Java reference that is not null. \<open>JRef\<close> is an object the caller already holds
  (a Bitmap to reuse, a Bitmap.Config); the other two are the objects the file builds:
  the BitmapRegionDecoder wrapping a native handle, and the Bitmap built from the
  allocator's storage and the creation flags. A nullable reference is a
  \<open>jobject option\<close>, \<open>None\<close> being NULL.
\<close>

datatype jobject =
    JRef nat
  | JBitmapRegionDecoder addr
  | JBitmap addr "32 word"

datatype SkColorType = kUnknown_SkColorType | SkColorType nat

record SkIRect =
  fLeft :: jint
  fTop :: jint
  fRight :: jint
  fBottom :: jint

text \<open>
  Of SkBitmap the file uses the default constructor, \<open>width()\<close>, \<open>height()\<close> and
  \<open>notifyPixelsChanged()\<close>; the pixel storage is shared with whoever else refers to it.
\<close>

record SkBitmap =
  bm_width :: jint
  bm_height :: jint
  bm_pixelRef :: "addr option"

definition SkBitmap_default :: SkBitmap where
  "SkBitmap_default = \<lparr>bm_width = 0, bm_height = 0, bm_pixelRef = None\<rparr>"

text \<open>class SkBitmapRegionDecoder (lines 42-67); \<open>'b\<close> is the state of the SkImageDecoder it owns.\<close>

record 'b SkBitmapRegionDecoder =
  fDecoder :: 'b
  fWidth :: jint
  fHeight :: jint

text \<open>
  The fields of BitmapFactory.Options that the file reads or writes, named after their
  field ids (\<open>gOptions_sampleSizeFieldID\<close>, ...).
\<close>

record Options =
  opt_sampleSize :: jint
  opt_width :: jint
  opt_height :: jint
  opt_mime :: "string option"
  opt_config :: "jobject option"
  opt_dither :: bool
  opt_preferQualityOverSpeed :: bool
  opt_bitmap :: "jobject option"
  opt_premultiplied :: bool
  opt_mCancel :: bool

text \<open>
  The operations the file calls on code outside it. \<open>'b\<close> is the state of an
  SkImageDecoder (its settings, its allocator, its tile index), \<open>'s\<close> the content of a
  stream.
  \<^item> \<open>Factory\<close>: the decoder that recognises the stream, if any.
  \<^item> \<open>setAllocator\<close>: the decoder after \<open>setAllocator(new JavaPixelAllocator(env))\<close>.
  \<^item> \<open>buildTileIndex\<close>: the decoder afterwards, and the width and height when it
    returns true.
  \<^item> \<open>decodeSubset\<close>: its boolean, the decoder afterwards and the bitmap afterwards.
  \<^item> \<open>getStorageObjAndReset\<close>: the storage held by the decoder's allocator, and the
    decoder with that allocator reset.
  \<^item> \<open>getNativeBitmapColorType\<close>, \<open>getSkBitmap\<close>, \<open>getMimeTypeString\<close>: the helpers
    of GraphicsJNI and BitmapFactory, which only read.
  \<^item> \<open>kBitmapCreateFlag_Premultiplied\<close>: the constant of GraphicsJNI.h.
\<close>

record ('b, 's) skia =
  Factory :: "'s \<Rightarrow> 'b option"
  setAllocator :: "'b \<Rightarrow> 'b"
  buildTileIndex :: "'b \<Rightarrow> 's \<Rightarrow> 'b \<times> (jint \<times> jint) option"
  getFormatName :: "'b \<Rightarrow> string"
  getFormat :: "'b \<Rightarrow> nat"
  setSampleSize :: "jint \<Rightarrow> 'b \<Rightarrow> 'b"
  setDitherImage :: "bool \<Rightarrow> 'b \<Rightarrow> 'b"
  setPreferQualityOverSpeed :: "bool \<Rightarrow> 'b \<Rightarrow> 'b"
  setRequireUnpremultipliedColors :: "bool \<Rightarrow> 'b \<Rightarrow> 'b"
  decodeSubset :: "'b \<Rightarrow> SkBitmap \<Rightarrow> SkIRect \<Rightarrow> SkColorType \<Rightarrow> bool \<times> 'b \<times> SkBitmap"
  getStorageObjAndReset :: "'b \<Rightarrow> addr \<times> 'b"
  getNativeBitmapColorType :: "jobject option \<Rightarrow> SkColorType"
  getSkBitmap :: "jobject \<Rightarrow> SkBitmap"
  getMimeTypeString :: "nat \<Rightarrow> string option"
  kBitmapCreateFlag_Premultiplied :: "32 word"

text \<open>
  The calls a decode makes on the decoder and on the bitmap it decodes into, in the
  order they are made, with their arguments; \<open>DecodeSubset\<close> also records the state of
  the decoder it is invoked on.
\<close>

datatype 'b call =
    SetDitherImage bool
  | SetPreferQualityOverSpeed bool
  | SetRequireUnpremultipliedColors bool
  | SetSampleSize jint
  | DecodeSubset 'b SkBitmap SkIRect SkColorType
  | NotifyPixelsChanged SkBitmap

text \<open>
  The world a native call runs in:
  \<^item> \<open>brds\<close>: the SkBitmapRegionDecoder objects, by address; \<open>None\<close> once deleted;
  \<^item> \<open>streams\<close>: the SkStreamRewindable objects, by address; \<open>None\<close> once deleted;
  \<^item> \<open>pendingIOE\<close>: the message of the pending java.io.IOException, if one was thrown;
  \<^item> \<open>gAutoDecoderCancel\<close>: the decodes registered for cancellation;
  \<^item> \<open>calls\<close>: the calls made on decoders so far.
\<close>

record ('b, 's) world =
  brds :: "'b SkBitmapRegionDecoder option list"
  streams :: "'s option list"
  pendingIOE :: "string option"
  gAutoDecoderCancel :: "addr list"
  calls :: "'b call list"

definition brd_at :: "('b, 's) world \<Rightarrow> addr \<Rightarrow> 'b SkBitmapRegionDecoder option" where
  "brd_at w a = (if a < length (brds w) then brds w ! a else None)"

definition stream_at :: "('b, 's) world \<Rightarrow> addr \<Rightarrow> 's option" where
  "stream_at w a = (if a < length (streams w) then streams w ! a else None)"

text \<open>\<open>delete stream\<close>.\<close>

definition delete_stream :: "addr \<Rightarrow> ('b, 's) world \<Rightarrow> ('b, 's) world" where
  "delete_stream a w = w\<lparr>streams := (streams w)[a := None]\<rparr>"

text \<open>\<open>new SkBitmapRegionDecoder(decoder, width, height)\<close> (lines 44-48): a fresh address.\<close>

definition new_SkBitmapRegionDecoder ::
  "'b \<Rightarrow> jint \<Rightarrow> jint \<Rightarrow> ('b, 's) world \<Rightarrow> addr \<times> ('b, 's) world" where
  "new_SkBitmapRegionDecoder decoder width height w =
     (length (brds w),
      w\<lparr>brds := brds w @ [Some \<lparr>fDecoder = decoder, fWidth = width, fHeight = height\<rparr>]\<rparr>)"

definition log_call :: "'b call \<Rightarrow> ('b, 's) world \<Rightarrow> ('b, 's) world" where
  "log_call c w = w\<lparr>calls := calls w @ [c]\<rparr>"

subsection \<open>Helpers defined outside the file\<close>

text \<open>
  Modelled from the spec: \<open>doThrowIOE\<close> (GraphicsJNI, not among the sources). The spec
  has every construction failure reported as an I/O or format error with a
  human-readable message; the model keeps the message of the exception thrown.
\<close>

definition doThrowIOE :: "string \<Rightarrow> ('b, 's) world \<Rightarrow> ('b, 's) world" where
  "doThrowIOE msg w = w\<lparr>pendingIOE := Some msg\<rparr>"

text \<open>
  Modelled from the spec: \<open>nullObjectReturn\<close> (BitmapFactory, not among the sources).
  The spec has every failure path return a null result; the argument is a diagnostic
  only.
\<close>

definition nullObjectReturn :: "string \<Rightarrow> jobject option" where
  "nullObjectReturn msg = None"

text \<open>
  Modelled from the spec: \<open>GraphicsJNI::createBitmapRegionDecoder\<close> and
  \<open>GraphicsJNI::createBitmap\<close> (not among the sources). The spec has construction
  return a handle holding the backend and the discovered dimensions, and a decode
  return the freshly allocated buffer with the premultiplication flag applied.
\<close>

definition GraphicsJNI_createBitmapRegionDecoder :: "addr \<Rightarrow> jobject option" where
  "GraphicsJNI_createBitmapRegionDecoder bm = Some (JBitmapRegionDecoder bm)"

definition GraphicsJNI_createBitmap :: "addr \<Rightarrow> 32 word \<Rightarrow> jobject option" where
  "GraphicsJNI_createBitmap storage bitmapCreateFlags = Some (JBitmap storage bitmapCreateFlags)"

text \<open>
  Modelled from the spec: the constructor and the destructor of \<open>AutoDecoderCancel\<close>
  (AutoDecodeCancel.h, not among the sources). The spec, 4.3: on entry to a decode
  call, if a cancellation-capable configuration was supplied, a token is registered for
  the in-flight operation; on exit the registration is removed. The token is the
  address of the region decoder whose decoder is in flight.
\<close>

definition AutoDecoderCancel_ctor ::
  "Options option \<Rightarrow> addr \<Rightarrow> ('b, 's) world \<Rightarrow> ('b, 's) world" where
  "AutoDecoderCancel_ctor joptions decoder w =
     (if joptions \<noteq> None then w\<lparr>gAutoDecoderCancel := decoder # gAutoDecoderCancel w\<rparr> else w)"

definition AutoDecoderCancel_dtor ::
  "Options option \<Rightarrow> addr \<Rightarrow> ('b, 's) world \<Rightarrow> ('b, 's) world" where
  "AutoDecoderCancel_dtor joptions decoder w =
     (if joptions \<noteq> None then w\<lparr>gAutoDecoderCancel := remove1 decoder (gAutoDecoderCancel w)\<rparr>
      else w)"

text \<open>\<open>snprintf(msg, n, ...)\<close>: at most \<open>n - 1\<close> characters are kept.\<close>

definition snprintf :: "nat \<Rightarrow> string \<Rightarrow> string" where
  "snprintf n s = take (n - 1) s"

subsection \<open>Construction (lines 69-96)\<close>

text \<open>
  \<open>buildTileIndex\<close> as the file relies on it (comment at line 84): the call passes
  ownership of the stream to the decoder, or deletes it on failure.
\<close>

definition SkImageDecoder_buildTileIndex ::
  "('b, 's) skia \<Rightarrow> 'b \<Rightarrow> addr \<Rightarrow> 's \<Rightarrow> ('b, 's) world
     \<Rightarrow> ('b \<times> (jint \<times> jint) option) \<times> ('b, 's) world" where
  "SkImageDecoder_buildTileIndex env decoder stream content w =
     (case buildTileIndex env decoder content of
        (decoder', None) \<Rightarrow> ((decoder', None), delete_stream stream w)
      | (decoder', Some dims) \<Rightarrow> ((decoder', Some dims), w))"

text \<open>
  \<open>createBitmapRegionDecoder(env, stream)\<close>. The result is \<open>None\<close> only when
  \<open>stream\<close> is not a live stream, which the C++ leaves undefined. \<open>delete decoder\<close>
  at line 90 needs no step: the decoder is a value that is dropped.
\<close>

definition createBitmapRegionDecoder ::
  "('b, 's) skia \<Rightarrow> addr \<Rightarrow> ('b, 's) world \<Rightarrow> (jobject option \<times> ('b, 's) world) option" where
  "createBitmapRegionDecoder env stream w =
     (case stream_at w stream of
        None \<Rightarrow> None
      | Some content \<Rightarrow>
          (case Factory env content of
             None \<Rightarrow>
               (let w1 = delete_stream stream w;
                    w2 = doThrowIOE ''Image format not supported'' w1
                in Some (nullObjectReturn ''SkImageDecoder::Factory returned null'', w2))
           | Some decoder0 \<Rightarrow>
               (let decoder = setAllocator env decoder0
                in case SkImageDecoder_buildTileIndex env decoder stream content w of
                     ((decoder', None), w1) \<Rightarrow>
                       (let msg = snprintf 100 (''Image failed to decode using ''
                                    @ getFormatName env decoder' @ '' decoder'');
                            w2 = doThrowIOE msg w1
                        in Some (nullObjectReturn ''decoder->buildTileIndex returned false'', w2))
                   | ((decoder', Some (width, height)), w1) \<Rightarrow>
                       (let (bm, w2) = new_SkBitmapRegionDecoder decoder' width height w1
                        in Some (GraphicsJNI_createBitmapRegionDecoder bm, w2)))))"

subsection \<open>Queries and teardown (lines 247-260)\<close>

definition nativeGetHeight :: "('b, 's) world \<Rightarrow> addr \<Rightarrow> jint option" where
  "nativeGetHeight w brdHandle = map_option fHeight (brd_at w brdHandle)"

definition nativeGetWidth :: "('b, 's) world \<Rightarrow> addr \<Rightarrow> jint option" where
  "nativeGetWidth w brdHandle = map_option fWidth (brd_at w brdHandle)"

definition nativeClean :: "addr \<Rightarrow> ('b, 's) world \<Rightarrow> ('b, 's) world option" where
  "nativeClean brdHandle w =
     (case brd_at w brdHandle of
        None \<Rightarrow> None
      | Some brd \<Rightarrow> Some (w\<lparr>brds := (brds w)[brdHandle := None]\<rparr>))"

subsection \<open>Decoding a region (lines 167-245)\<close>

text \<open>
  A method of SkImageDecoder acts on the decoder it is called on and is recorded among
  the calls of the world.
\<close>

definition SkImageDecoder_setDitherImage ::
  "('b, 's) skia \<Rightarrow> bool \<Rightarrow> 'b \<times> ('b, 's) world \<Rightarrow> 'b \<times> ('b, 's) world" where
  "SkImageDecoder_setDitherImage env b st =
     (case st of (decoder, w) \<Rightarrow> (setDitherImage env b decoder, log_call (SetDitherImage b) w))"

definition SkImageDecoder_setPreferQualityOverSpeed ::
  "('b, 's) skia \<Rightarrow> bool \<Rightarrow> 'b \<times> ('b, 's) world \<Rightarrow> 'b \<times> ('b, 's) world" where
  "SkImageDecoder_setPreferQualityOverSpeed env b st =
     (case st of (decoder, w) \<Rightarrow>
        (setPreferQualityOverSpeed env b decoder, log_call (SetPreferQualityOverSpeed b) w))"

definition SkImageDecoder_setRequireUnpremultipliedColors ::
  "('b, 's) skia \<Rightarrow> bool \<Rightarrow> 'b \<times> ('b, 's) world \<Rightarrow> 'b \<times> ('b, 's) world" where
  "SkImageDecoder_setRequireUnpremultipliedColors env b st =
     (case st of (decoder, w) \<Rightarrow>
        (setRequireUnpremultipliedColors env b decoder,
         log_call (SetRequireUnpremultipliedColors b) w))"

definition SkImageDecoder_setSampleSize ::
  "('b, 's) skia \<Rightarrow> jint \<Rightarrow> 'b \<times> ('b, 's) world \<Rightarrow> 'b \<times> ('b, 's) world" where
  "SkImageDecoder_setSampleSize env n st =
     (case st of (decoder, w) \<Rightarrow> (setSampleSize env n decoder, log_call (SetSampleSize n) w))"

definition SkImageDecoder_decodeSubset ::
  "('b, 's) skia \<Rightarrow> SkBitmap \<Rightarrow> SkIRect \<Rightarrow> SkColorType \<Rightarrow> 'b \<times> ('b, 's) world
     \<Rightarrow> (bool \<times> SkBitmap) \<times> 'b \<times> ('b, 's) world" where
  "SkImageDecoder_decodeSubset env bitmap rect pref st =
     (case st of (decoder, w) \<Rightarrow>
        (case decodeSubset env decoder bitmap rect pref of
           (ok, decoder', bitmap') \<Rightarrow>
             ((ok, bitmap'), decoder', log_call (DecodeSubset decoder bitmap rect pref) w)))"

text \<open>
  \<open>SkBitmapRegionDecoder::decodeRegion\<close> (lines 53-57), on the decoder \<open>fDecoder\<close> of
  the object: the boolean of \<open>decodeSubset\<close> and the bitmap it leaves.
\<close>

definition decodeRegion ::
  "('b, 's) skia \<Rightarrow> SkBitmap \<Rightarrow> SkIRect \<Rightarrow> SkColorType \<Rightarrow> jint \<Rightarrow> 'b \<times> ('b, 's) world
     \<Rightarrow> (bool \<times> SkBitmap) \<times> 'b \<times> ('b, 's) world" where
  "decodeRegion env bitmap rect pref sampleSize st =
     SkImageDecoder_decodeSubset env bitmap rect pref
       (SkImageDecoder_setSampleSize env sampleSize st)"

text \<open>The local variables of \<open>nativeDecodeRegion\<close> that the options decide (lines 170-176).\<close>

record locals =
  tileBitmap :: "jobject option"
  sampleSize :: jint
  prefColorType :: SkColorType
  doDither :: bool
  preferQualityOverSpeed :: bool
  requireUnpremultiplied :: bool

text \<open>
  Lines 170-193: the defaults, and what is read from and written to the options when
  they are not null. The result is the locals and the options object as it is left.
\<close>

definition read_options ::
  "('b, 's) skia \<Rightarrow> Options option \<Rightarrow> locals \<times> Options option" where
  "read_options env options =
     (case options of
        None \<Rightarrow>
          (\<lparr>tileBitmap = None, sampleSize = 1, prefColorType = kUnknown_SkColorType,
            doDither = True, preferQualityOverSpeed = False,
            requireUnpremultiplied = False\<rparr>, None)
      | Some opts \<Rightarrow>
          (let opts1 = opts\<lparr>opt_width := - 1\<rparr>;
               opts2 = opts1\<lparr>opt_height := - 1\<rparr>;
               opts3 = opts2\<lparr>opt_mime := None\<rparr>;
               jconfig = opt_config opts3
           in (\<lparr>tileBitmap = opt_bitmap opts3,
                sampleSize = opt_sampleSize opts,
                prefColorType = getNativeBitmapColorType env jconfig,
                doDither = opt_dither opts3,
                preferQualityOverSpeed = opt_preferQualityOverSpeed opts3,
                requireUnpremultiplied = (\<not> opt_premultiplied opts3)\<rparr>, Some opts3)))"

text \<open>Line 203: \<open>NULL != options && env->GetBooleanField(options, gOptions_mCancelID)\<close>.\<close>

definition cancel_requested :: "Options option \<Rightarrow> bool" where
  "cancel_requested options = (case options of None \<Rightarrow> False | Some opts \<Rightarrow> opt_mCancel opts)"

text \<open>Lines 207-211.\<close>

definition make_region :: "jint \<Rightarrow> jint \<Rightarrow> jint \<Rightarrow> jint \<Rightarrow> SkIRect" where
  "make_region start_x start_y width height =
     \<lparr>fLeft = start_x, fTop = start_y, fRight = start_x + width, fBottom = start_y + height\<rparr>"

text \<open>Lines 212-217: the bitmap handed to the decoder.\<close>

definition target_bitmap :: "('b, 's) skia \<Rightarrow> jobject option \<Rightarrow> SkBitmap" where
  "target_bitmap env tile =
     (case tile of None \<Rightarrow> SkBitmap_default | Some tb \<Rightarrow> getSkBitmap env tb)"

text \<open>Lines 224-232: the write-back to the options, if any.\<close>

definition update_options ::
  "('b, 's) skia \<Rightarrow> SkBitmap \<Rightarrow> 'b \<Rightarrow> Options option \<Rightarrow> Options option" where
  "update_options env bitmap decoder options =
     (case options of
        None \<Rightarrow> None
      | Some opts \<Rightarrow>
          Some (opts\<lparr>opt_width := bm_width bitmap, opt_height := bm_height bitmap,
                     opt_mime := getMimeTypeString env (getFormat env decoder)\<rparr>))"

text \<open>Lines 241-242.\<close>

definition create_flags :: "('b, 's) skia \<Rightarrow> bool \<Rightarrow> 32 word" where
  "create_flags env requireUnpremul =
     (let bitmapCreateFlags = 0
      in if \<not> requireUnpremul then bitmapCreateFlags OR kBitmapCreateFlag_Premultiplied env
         else bitmapCreateFlags)"

text \<open>
  Lines 200-244, the part of the function that runs while \<open>adc\<close> is in scope: the
  result, the options as they are left, the decoder and the world.
\<close>

definition decode_in_scope ::
  "('b, 's) skia \<Rightarrow> jint \<Rightarrow> jint \<Rightarrow> jint \<Rightarrow> jint \<Rightarrow> locals \<Rightarrow> Options option
     \<Rightarrow> 'b \<times> ('b, 's) world \<Rightarrow> jobject option \<times> Options option \<times> 'b \<times> ('b, 's) world" where
  "decode_in_scope env start_x start_y width height l options st =
     (if cancel_requested options then
        (case st of (decoder, w) \<Rightarrow> (nullObjectReturn ''gOptions_mCancelID'', options, decoder, w))
      else
        (let region = make_region start_x start_y width height;
             bitmap = target_bitmap env (tileBitmap l)
         in case decodeRegion env bitmap region (prefColorType l) (sampleSize l) st of
              ((ok, bitmap'), decoder', w') \<Rightarrow>
                if \<not> ok then
                  (nullObjectReturn ''decoder->decodeRegion returned false'', options, decoder', w')
                else
                  (let options' = update_options env bitmap' decoder' options
                   in case tileBitmap l of
                        Some tb \<Rightarrow>
                          (Some tb, options', decoder', log_call (NotifyPixelsChanged bitmap') w')
                      | None \<Rightarrow>
                          (case getStorageObjAndReset env decoder' of
                             (storage, decoder'') \<Rightarrow>
                               (GraphicsJNI_createBitmap storage
                                  (create_flags env (requireUnpremultiplied l)),
                                options', decoder'', w')))))"

text \<open>
  \<open>nativeDecodeRegion\<close>. The decoder is reached through \<open>brd->getDecoder()\<close>: its
  state is read from the object at \<open>brdHandle\<close>, threaded through the calls and written
  back on exit. The destructor of \<open>adc\<close> runs on every return. The result is \<open>None\<close>
  only when \<open>brdHandle\<close> is not a live object, which the C++ leaves undefined;
  otherwise it is the object returned, the options as the caller finds them, and the
  world.
\<close>

definition nativeDecodeRegion ::
  "('b, 's) skia \<Rightarrow> addr \<Rightarrow> jint \<Rightarrow> jint \<Rightarrow> jint \<Rightarrow> jint \<Rightarrow> Options option
     \<Rightarrow> ('b, 's) world \<Rightarrow> (jobject option \<times> Options option \<times> ('b, 's) world) option" where
  "nativeDecodeRegion env brdHandle start_x start_y width height options w =
     (case brd_at w brdHandle of
        None \<Rightarrow> None
      | Some brd \<Rightarrow>
          (case read_options env options of
             (l, options1) \<Rightarrow>
               (let st1 = SkImageDecoder_setDitherImage env (doDither l) (fDecoder brd, w);
                    st2 = SkImageDecoder_setPreferQualityOverSpeed env
                            (preferQualityOverSpeed l) st1;
                    st3 = SkImageDecoder_setRequireUnpremultipliedColors env
                            (requireUnpremultiplied l) st2;
                    st4 = (fst st3, AutoDecoderCancel_ctor options brdHandle (snd st3))
                in case decode_in_scope env start_x start_y width height l options1 st4 of
                     (result, options', decoder', w') \<Rightarrow>
                       Some (result, options',
                             AutoDecoderCancel_dtor options brdHandle
                               (w'\<lparr>brds := (brds w')[brdHandle :=
                                      Some (brd\<lparr>fDecoder := decoder'\<rparr>)]\<rparr>)))))"

text \<open>
  For stating what a decode does: the decoder as \<open>decodeSubset\<close> finds it (after the
  three setters of lines 195-197 and \<open>setSampleSize\<close> of line 55), and what
  \<open>decodeSubset\<close> answers to the request when the call reaches it.
\<close>

definition configured :: "('b, 's) skia \<Rightarrow> locals \<Rightarrow> 'b \<Rightarrow> 'b" where
  "configured env l decoder =
     setSampleSize env (sampleSize l)
       (setRequireUnpremultipliedColors env (requireUnpremultiplied l)
          (setPreferQualityOverSpeed env (preferQualityOverSpeed l)
             (setDitherImage env (doDither l) decoder)))"

definition backend_answer ::
  "('b, 's) skia \<Rightarrow> 'b SkBitmapRegionDecoder \<Rightarrow> jint \<Rightarrow> jint \<Rightarrow> jint \<Rightarrow> jint \<Rightarrow> Options option
     \<Rightarrow> bool \<times> 'b \<times> SkBitmap" where
  "backend_answer env brd start_x start_y width height options =
     (let l = fst (read_options env options)
      in decodeSubset env (configured env l (fDecoder brd))
           (target_bitmap env (tileBitmap l))
           (make_region start_x start_y width height) (prefColorType l))"

text \<open>
  The calls of a decode up to and including \<open>decodeSubset\<close>, and the calls of a decode
  that the check of line 203 stops.
\<close>

definition setter_calls :: "locals \<Rightarrow> 'b call list" where
  "setter_calls l =
     [SetDitherImage (doDither l), SetPreferQualityOverSpeed (preferQualityOverSpeed l),
      SetRequireUnpremultipliedColors (requireUnpremultiplied l)]"

definition decode_calls ::
  "('b, 's) skia \<Rightarrow> 'b SkBitmapRegionDecoder \<Rightarrow> jint \<Rightarrow> jint \<Rightarrow> jint \<Rightarrow> jint \<Rightarrow> Options option
     \<Rightarrow> 'b call list" where
  "decode_calls env brd start_x start_y width height options =
     (let l = fst (read_options env options)
      in setter_calls l @
         [SetSampleSize (sampleSize l),
          DecodeSubset (configured env l (fDecoder brd)) (target_bitmap env (tileBitmap l))
            (make_region start_x start_y width height) (prefColorType l)])"

text \<open>The backend is untouched between two worlds: no call was made, the object is as it was.\<close>

definition backend_untouched :: "addr \<Rightarrow> ('b, 's) world \<Rightarrow> ('b, 's) world \<Rightarrow> bool" where
  "backend_untouched a w w' \<longleftrightarrow> calls w' = calls w \<and> brd_at w' a = brd_at w a"

text \<open>A decode request: \<open>start_x\<close>, \<open>start_y\<close>, \<open>width\<close>, \<open>height\<close> and the options.\<close>

type_synonym request = "jint \<times> jint \<times> jint \<times> jint \<times> Options option"

text \<open>Any number of decodes on one handle, one after the other.\<close>

fun decode_all ::
  "('b, 's) skia \<Rightarrow> addr \<Rightarrow> request list \<Rightarrow> ('b, 's) world \<Rightarrow> ('b, 's) world option" where
  "decode_all env brdHandle [] w = Some w"
| "decode_all env brdHandle ((x, y, wd, ht, options) # rs) w =
     (case nativeDecodeRegion env brdHandle x y wd ht options w of
        None \<Rightarrow> None
      | Some (result, options', w') \<Rightarrow> decode_all env brdHandle rs w')"

text \<open>The rectangles handed to \<open>decodeSubset\<close>, and the calls of a given kind, in a list of calls.\<close>

fun decoded_rects :: "'b call list \<Rightarrow> SkIRect list" where
  "decoded_rects [] = []"
| "decoded_rects (DecodeSubset d b r p # cs) = r # decoded_rects cs"
| "decoded_rects (c # cs) = decoded_rects cs"

subsection \<open>A small backend and worlds, to run the definitions on\<close>

text \<open>
  A stream is a list of numbers: the magic number 7, then the width and the height.
  The decoder records its settings; it decodes a rectangle that is not empty and lies
  within the image, into a bitmap of the size of the rectangle.
\<close>

record sample_decoder =
  sd_allocator :: bool
  sd_size :: "jint \<times> jint"
  sd_sampleSize :: jint
  sd_dither :: bool
  sd_quality :: bool
  sd_unpremul :: bool

definition sample_init :: sample_decoder where
  "sample_init = \<lparr>sd_allocator = False, sd_size = (0, 0), sd_sampleSize = 1,
                   sd_dither = False, sd_quality = False, sd_unpremul = False\<rparr>"

definition sample_skia :: "(sample_decoder, jint list) skia" where
  "sample_skia =
     \<lparr>Factory = (\<lambda>s. if take 1 s = [7] then Some sample_init else None),
      setAllocator = (\<lambda>d. d\<lparr>sd_allocator := True\<rparr>),
      buildTileIndex = (\<lambda>d s. case s of
                          [m, wd, ht] \<Rightarrow> (d\<lparr>sd_size := (wd, ht)\<rparr>, Some (wd, ht))
                        | _ \<Rightarrow> (d, None)),
      getFormatName = (\<lambda>d. ''sample''),
      getFormat = (\<lambda>d. 1),
      setSampleSize = (\<lambda>n d. d\<lparr>sd_sampleSize := n\<rparr>),
      setDitherImage = (\<lambda>b d. d\<lparr>sd_dither := b\<rparr>),
      setPreferQualityOverSpeed = (\<lambda>b d. d\<lparr>sd_quality := b\<rparr>),
      setRequireUnpremultipliedColors = (\<lambda>b d. d\<lparr>sd_unpremul := b\<rparr>),
      decodeSubset = (\<lambda>d bm r p.
         if fLeft r < fRight r \<and> fTop r < fBottom r
            \<and> fRight r \<le> fst (sd_size d) \<and> fBottom r \<le> snd (sd_size d)
         then (True, d, bm\<lparr>bm_width := fRight r - fLeft r, bm_height := fBottom r - fTop r\<rparr>)
         else (False, d, bm)),
      getStorageObjAndReset = (\<lambda>d. (0, d)),
      getNativeBitmapColorType = (\<lambda>c. kUnknown_SkColorType),
      getSkBitmap = (\<lambda>j. \<lparr>bm_width = 2, bm_height = 2, bm_pixelRef = Some 0\<rparr>),
      getMimeTypeString = (\<lambda>f. if f = 1 then Some ''image/sample'' else None),
      kBitmapCreateFlag_Premultiplied = 2\<rparr>"

text \<open>A world with three streams: a good one, a truncated one, and one of no known format.\<close>

definition world0 :: "(sample_decoder, jint list) world" where
  "world0 = \<lparr>brds = [], streams = [Some [7, 100, 100], Some [7, 100], Some [3, 100, 100]],
             pendingIOE = None, gAutoDecoderCancel = [], calls = []\<rparr>"

text \<open>The decoder and the world that construction from the good stream leaves.\<close>

definition sample_built :: sample_decoder where
  "sample_built = sample_init\<lparr>sd_allocator := True, sd_size := (100, 100)\<rparr>"

definition world1 :: "(sample_decoder, jint list) world" where
  "world1 = world0\<lparr>brds := [Some \<lparr>fDecoder = sample_built, fWidth = 100, fHeight = 100\<rparr>]\<rparr>"

text \<open>Options with every input at its Java default, and variants.\<close>

definition options0 :: Options where
  "options0 = \<lparr>opt_sampleSize = 1, opt_width = 0, opt_height = 0, opt_mime = None,
               opt_config = None, opt_dither = False, opt_preferQualityOverSpeed = False,
               opt_bitmap = None, opt_premultiplied = True, opt_mCancel = False\<rparr>"

section \<open>Properties\<close>

subsection \<open>What a decode does, path by path\<close>

lemmas decode_defs =
  nativeDecodeRegion_def decode_in_scope_def decodeRegion_def
  SkImageDecoder_decodeSubset_def SkImageDecoder_setSampleSize_def
  SkImageDecoder_setDitherImage_def SkImageDecoder_setPreferQualityOverSpeed_def
  SkImageDecoder_setRequireUnpremultipliedColors_def
  AutoDecoderCancel_ctor_def AutoDecoderCancel_dtor_def log_call_def
  backend_answer_def configured_def decode_calls_def setter_calls_def
  nullObjectReturn_def

lemma nativeDecodeRegion_cancelled:
  assumes "brd_at w h = Some brd" and "cancel_requested options"
  shows "nativeDecodeRegion env h x y wd ht options w =
    Some (None, snd (read_options env options),
      w\<lparr>brds := (brds w)[h := Some (brd\<lparr>fDecoder :=
            setRequireUnpremultipliedColors env (requireUnpremultiplied (fst (read_options env options)))
              (setPreferQualityOverSpeed env (preferQualityOverSpeed (fst (read_options env options)))
                 (setDitherImage env (doDither (fst (read_options env options))) (fDecoder brd)))\<rparr>)],
        calls := calls w @ setter_calls (fst (read_options env options))\<rparr>)"
  using assms
  by (cases options)
     (auto simp: decode_defs cancel_requested_def read_options_def Let_def split: prod.splits)

lemma nativeDecodeRegion_failed:
  assumes "brd_at w h = Some brd" and "\<not> cancel_requested options"
    and "backend_answer env brd x y wd ht options = (False, d', bm')"
  shows "nativeDecodeRegion env h x y wd ht options w =
    Some (None, snd (read_options env options),
      w\<lparr>brds := (brds w)[h := Some (brd\<lparr>fDecoder := d'\<rparr>)],
        calls := calls w @ decode_calls env brd x y wd ht options\<rparr>)"
  using assms
  by (cases options)
     (auto simp: decode_defs cancel_requested_def read_options_def Let_def split: prod.splits)

lemma nativeDecodeRegion_reused:
  assumes "brd_at w h = Some brd" and "\<not> cancel_requested options"
    and "backend_answer env brd x y wd ht options = (True, d', bm')"
    and "tileBitmap (fst (read_options env options)) = Some tb"
  shows "nativeDecodeRegion env h x y wd ht options w =
    Some (Some tb, update_options env bm' d' (snd (read_options env options)),
      w\<lparr>brds := (brds w)[h := Some (brd\<lparr>fDecoder := d'\<rparr>)],
        calls := calls w @ decode_calls env brd x y wd ht options @ [NotifyPixelsChanged bm']\<rparr>)"
  using assms
  by (cases options)
     (auto simp: decode_defs cancel_requested_def read_options_def Let_def split: prod.splits)

lemma nativeDecodeRegion_fresh:
  assumes "brd_at w h = Some brd" and "\<not> cancel_requested options"
    and "backend_answer env brd x y wd ht options = (True, d', bm')"
    and "tileBitmap (fst (read_options env options)) = None"
  shows "nativeDecodeRegion env h x y wd ht options w =
    Some (Some (JBitmap (fst (getStorageObjAndReset env d'))
                  (create_flags env (requireUnpremultiplied (fst (read_options env options))))),
      update_options env bm' d' (snd (read_options env options)),
      w\<lparr>brds := (brds w)[h := Some (brd\<lparr>fDecoder := snd (getStorageObjAndReset env d')\<rparr>)],
        calls := calls w @ decode_calls env brd x y wd ht options\<rparr>)"
  using assms
  by (cases options)
     (auto simp: decode_defs cancel_requested_def read_options_def Let_def 
        GraphicsJNI_createBitmap_def split: prod.splits)

subsection \<open>The rectangles in a list of calls\<close>

lemma decoded_rects_append: "decoded_rects (xs @ ys) = decoded_rects xs @ decoded_rects ys"
  by (induction xs rule: decoded_rects.induct) simp_all

lemma decoded_rects_setter_calls: "decoded_rects (setter_calls l) = []"
  by (simp add: setter_calls_def)

lemma decoded_rects_decode_calls:
  "decoded_rects (decode_calls env brd x y wd ht options) = [make_region x y wd ht]"
  by (simp add: decode_calls_def decoded_rects_append decoded_rects_setter_calls Let_def)

subsection \<open>A decode returns, and keeps the object\<close>

lemma nativeDecodeRegion_live:
  assumes "brd_at w h = Some brd"
  shows "\<exists>r options' w' d'. nativeDecodeRegion env h x y wd ht options w = Some (r, options', w')
     \<and> brd_at w' h = Some (brd\<lparr>fDecoder := d'\<rparr>)
     \<and> gAutoDecoderCancel w' = gAutoDecoderCancel w
     \<and> pendingIOE w' = pendingIOE w \<and> streams w' = streams w"
proof (cases "cancel_requested options")
  case True
  show ?thesis
    using assms by (auto simp: nativeDecodeRegion_cancelled [OF assms True] brd_at_def split: if_splits)
next
  case False
  obtain ok d' bm' where ans: "backend_answer env brd x y wd ht options = (ok, d', bm')"
    by (cases "backend_answer env brd x y wd ht options") auto
  show ?thesis
  proof (cases ok)
    case f: False
    show ?thesis
      using assms ans f by (auto simp: nativeDecodeRegion_failed [OF assms False] brd_at_def split: if_splits)
  next
    case t: True
    show ?thesis
    proof (cases "tileBitmap (fst (read_options env options))")
      case None
      show ?thesis
        using assms ans t None
        by (auto simp: nativeDecodeRegion_fresh [OF assms False] brd_at_def split: if_splits)
    next
      case (Some tb)
      show ?thesis
        using assms ans t Some
        by (auto simp: nativeDecodeRegion_reused [OF assms False] brd_at_def split: if_splits)
    qed
  qed
qed

lemma decode_all_keeps_dimensions:
  assumes "brd_at w h = Some brd"
  shows "\<exists>w' d'. decode_all env h rs w = Some w' \<and> brd_at w' h = Some (brd\<lparr>fDecoder := d'\<rparr>)"
  using assms
proof (induction rs arbitrary: w brd)
  case Nil
  have "brd = brd\<lparr>fDecoder := fDecoder brd\<rparr>" by simp
  with Nil show ?case by (metis decode_all.simps(1))
next
  case (Cons r rs)
  obtain x y wd ht options where r: "r = (x, y, wd, ht, options)"
    by (cases r) auto
  from nativeDecodeRegion_live [OF Cons.prems, of env x y wd ht options]
  obtain res options' w1 d1 where
    step: "nativeDecodeRegion env h x y wd ht options w = Some (res, options', w1)"
    and live1: "brd_at w1 h = Some (brd\<lparr>fDecoder := d1\<rparr>)"
    by blast
  from Cons.IH [OF live1] obtain w' d' where
    "decode_all env h rs w1 = Some w'" "brd_at w' h = Some (brd\<lparr>fDecoder := d1\<rparr>\<lparr>fDecoder := d'\<rparr>)"
    by blast
  then show ?case
    using step r by auto
qed

subsection \<open>Unfolding the sample backend\<close>

lemmas sample_defs =
  sample_skia_def world0_def world1_def sample_built_def sample_init_def options0_def

subsection \<open>Construction\<close>

text \<open>
  C1. Called on a live stream, \<open>createBitmapRegionDecoder\<close> returns, in one of three
  ways. When no decoder recognises the stream, the result is null, the exception
  pending is "Image format not supported", the stream is deleted and no region decoder
  was created. When the recognised decoder's \<open>buildTileIndex\<close> fails, the result is
  null, the exception pending is "Image failed to decode using X decoder" (X the
  decoder's format name, the whole cut to the 99 characters of the buffer), which is
  never the first message, the stream is deleted (by \<open>buildTileIndex\<close>) and no region
  decoder was created. Otherwise the result is a handle on a new region decoder that
  holds the decoder and the dimensions found, no exception is thrown and the stream
  lives on, owned by the decoder.
\<close>

theorem createBitmapRegionDecoder_outcomes:
  assumes "stream_at w stream = Some content"
  shows "\<exists>result w'. createBitmapRegionDecoder env stream w = Some (result, w') \<and>
     (case Factory env content of
        None \<Rightarrow>
          result = None \<and> pendingIOE w' = Some ''Image format not supported''
          \<and> stream_at w' stream = None \<and> brds w' = brds w
      | Some decoder0 \<Rightarrow>
          (case buildTileIndex env (setAllocator env decoder0) content of
             (decoder', None) \<Rightarrow>
               result = None
               \<and> pendingIOE w' = Some (take 99 (''Image failed to decode using ''
                                      @ getFormatName env decoder' @ '' decoder''))
               \<and> pendingIOE w' \<noteq> Some ''Image format not supported''
               \<and> stream_at w' stream = None \<and> brds w' = brds w
           | (decoder', Some (width, height)) \<Rightarrow>
               result = Some (JBitmapRegionDecoder (length (brds w)))
               \<and> brd_at w' (length (brds w))
                   = Some \<lparr>fDecoder = decoder', fWidth = width, fHeight = height\<rparr>
               \<and> pendingIOE w' = pendingIOE w
               \<and> stream_at w' stream = Some content))"
proof -
  from assms have lt: "stream < length (streams w)" and at: "streams w ! stream = Some content"
    by (auto simp: stream_at_def split: if_splits)
  show ?thesis
  proof (cases "Factory env content")
    case None
    with assms lt show ?thesis
      by (simp add: createBitmapRegionDecoder_def Let_def delete_stream_def doThrowIOE_def
            nullObjectReturn_def stream_at_def)
  next
    case (Some decoder0)
    obtain decoder' dims where
      b: "buildTileIndex env (setAllocator env decoder0) content = (decoder', dims)"
      by (cases "buildTileIndex env (setAllocator env decoder0) content") auto
    show ?thesis
    proof (cases dims)
      case None
      with assms lt Some b show ?thesis
        by (simp add: createBitmapRegionDecoder_def SkImageDecoder_buildTileIndex_def Let_def
              delete_stream_def doThrowIOE_def nullObjectReturn_def stream_at_def snprintf_def)
    next
      case dims: (Some wh)
      obtain width height where wh: "wh = (width, height)" by (cases wh) auto
      with assms lt at Some b dims show ?thesis
        by (simp add: createBitmapRegionDecoder_def SkImageDecoder_buildTileIndex_def Let_def
              new_SkBitmapRegionDecoder_def GraphicsJNI_createBitmapRegionDecoder_def
              stream_at_def brd_at_def)
    qed
  qed
qed

theorem createBitmapRegionDecoder_outcomes_witness:
  "stream_at world0 0 = Some [7, 100, 100]
   \<and> createBitmapRegionDecoder sample_skia 0 world0
       = Some (Some (JBitmapRegionDecoder 0), world1)
   \<and> stream_at world0 1 = Some [7, 100]
   \<and> createBitmapRegionDecoder sample_skia 1 world0
       = Some (None, world0\<lparr>streams := [Some [7, 100, 100], None, Some [3, 100, 100]],
                           pendingIOE := Some ''Image failed to decode using sample decoder''\<rparr>)
   \<and> stream_at world0 2 = Some [3, 100, 100]
   \<and> createBitmapRegionDecoder sample_skia 2 world0
       = Some (None, world0\<lparr>streams := [Some [7, 100, 100], Some [7, 100], None],
                           pendingIOE := Some ''Image format not supported''\<rparr>)"
  using createBitmapRegionDecoder_outcomes [of world0 0 "[7, 100, 100]" sample_skia]
    createBitmapRegionDecoder_outcomes [of world0 1 "[7, 100]" sample_skia]
    createBitmapRegionDecoder_outcomes [of world0 2 "[3, 100, 100]" sample_skia]
  by (simp add: sample_defs stream_at_def createBitmapRegionDecoder_def
        SkImageDecoder_buildTileIndex_def Let_def delete_stream_def doThrowIOE_def
        nullObjectReturn_def snprintf_def new_SkBitmapRegionDecoder_def
        GraphicsJNI_createBitmapRegionDecoder_def)

subsection \<open>What the options decide\<close>

lemma read_options_Some:
  "read_options env (Some opts) =
     (\<lparr>tileBitmap = opt_bitmap opts, sampleSize = opt_sampleSize opts,
       prefColorType = getNativeBitmapColorType env (opt_config opts),
       doDither = opt_dither opts,
       preferQualityOverSpeed = opt_preferQualityOverSpeed opts,
       requireUnpremultiplied = (\<not> opt_premultiplied opts)\<rparr>,
      Some (opts\<lparr>opt_width := - 1, opt_height := - 1, opt_mime := None\<rparr>))"
  by (simp add: read_options_def Let_def)

lemma read_options_None:
  "read_options env None =
     (\<lparr>tileBitmap = None, sampleSize = 1, prefColorType = kUnknown_SkColorType,
       doDither = True, preferQualityOverSpeed = False, requireUnpremultiplied = False\<rparr>,
      None)"
  by (simp add: read_options_def)

subsection \<open>A decode that finds the cancel flag set\<close>

text \<open>
  C2, as claimed, fails: a decode whose options have the cancel flag set at entry returns
  null, but not without touching the backend. With the sample backend, a decoder whose
  dither setting is off and options that ask for dither and are cancelled, the three
  setters of lines 195-197 have been called and the decoder's dither setting is on when
  the call returns.
\<close>

theorem cancelled_decode_touches_backend:
  "nativeDecodeRegion sample_skia 0 0 0 50 50
       (Some (options0\<lparr>opt_dither := True, opt_mCancel := True\<rparr>)) world1
     = Some (None,
         Some (options0\<lparr>opt_width := - 1, opt_height := - 1, opt_dither := True,
                        opt_mCancel := True\<rparr>),
         world1\<lparr>brds := [Some \<lparr>fDecoder = sample_built\<lparr>sd_dither := True\<rparr>,
                                 fWidth = 100, fHeight = 100\<rparr>],
                calls := [SetDitherImage True, SetPreferQualityOverSpeed False,
                          SetRequireUnpremultipliedColors False]\<rparr>)
   \<and> \<not> backend_untouched 0 world1
         (world1\<lparr>brds := [Some \<lparr>fDecoder = sample_built\<lparr>sd_dither := True\<rparr>,
                                 fWidth = 100, fHeight = 100\<rparr>],
                calls := [SetDitherImage True, SetPreferQualityOverSpeed False,
                          SetRequireUnpremultipliedColors False]\<rparr>)"
  by (simp add: decode_defs sample_defs brd_at_def read_options_def cancel_requested_def
        backend_untouched_def Let_def)

text \<open>
  C2, amended. A decode on a live handle whose options have the cancel flag set at entry
  returns null; the calls it has made on the decoder are exactly \<open>setDitherImage\<close>,
  \<open>setPreferQualityOverSpeed\<close> and \<open>setRequireUnpremultipliedColors\<close> with the values
  of the options, which the decoder keeps; neither \<open>setSampleSize\<close> nor
  \<open>decodeSubset\<close> is called.
\<close>

theorem cancelled_decode_stops_before_decodeSubset:
  assumes "brd_at w h = Some brd" and "opt_mCancel opts"
  shows "\<exists>options' w'.
      nativeDecodeRegion env h x y wd ht (Some opts) w = Some (None, options', w')
    \<and> calls w' = calls w @ [SetDitherImage (opt_dither opts),
                             SetPreferQualityOverSpeed (opt_preferQualityOverSpeed opts),
                             SetRequireUnpremultipliedColors (\<not> opt_premultiplied opts)]
    \<and> decoded_rects (calls w') = decoded_rects (calls w)
    \<and> brd_at w' h = Some (brd\<lparr>fDecoder :=
          setRequireUnpremultipliedColors env (\<not> opt_premultiplied opts)
            (setPreferQualityOverSpeed env (opt_preferQualityOverSpeed opts)
               (setDitherImage env (opt_dither opts) (fDecoder brd)))\<rparr>)"
proof -
  have c: "cancel_requested (Some opts)"
    using assms(2) by (simp add: cancel_requested_def)
  from assms(1) have lt: "h < length (brds w)"
    by (simp add: brd_at_def split: if_splits)
  show ?thesis
    using lt
    by (simp add: nativeDecodeRegion_cancelled [OF assms(1) c] read_options_Some
          setter_calls_def decoded_rects_append brd_at_def)
qed

theorem cancelled_decode_stops_before_decodeSubset_witness:
  "brd_at world1 0 = Some \<lparr>fDecoder = sample_built, fWidth = 100, fHeight = 100\<rparr>
   \<and> opt_mCancel (options0\<lparr>opt_dither := True, opt_mCancel := True\<rparr>)
   \<and> (\<exists>options' w'.
        nativeDecodeRegion sample_skia 0 0 0 50 50
          (Some (options0\<lparr>opt_dither := True, opt_mCancel := True\<rparr>)) world1
          = Some (None, options', w')
        \<and> calls w' = [SetDitherImage True, SetPreferQualityOverSpeed False,
                       SetRequireUnpremultipliedColors False]
        \<and> decoded_rects (calls w') = [])"
proof -
  have live: "brd_at world1 0 = Some \<lparr>fDecoder = sample_built, fWidth = 100, fHeight = 100\<rparr>"
    by (simp add: brd_at_def world1_def world0_def)
  have c: "opt_mCancel (options0\<lparr>opt_dither := True, opt_mCancel := True\<rparr>)"
    by simp
  from cancelled_decode_stops_before_decodeSubset [OF live c, of sample_skia 0 0 50 50]
  show ?thesis
    using live by (auto simp: options0_def world1_def world0_def)
qed

subsection \<open>Width and height\<close>

text \<open>
  C3. When construction succeeds, \<open>nativeGetWidth\<close> and \<open>nativeGetHeight\<close> on the
  handle return the width and the height that \<open>buildTileIndex\<close> found, and they
  return the same after any sequence of \<open>nativeDecodeRegion\<close> calls on the handle,
  each of which returns.
\<close>

theorem dimensions_fixed_by_construction:
  assumes "stream_at w stream = Some content"
    and "Factory env content = Some decoder0"
    and "buildTileIndex env (setAllocator env decoder0) content = (decoder', Some (width, height))"
  shows "\<exists>h w1. createBitmapRegionDecoder env stream w = Some (Some (JBitmapRegionDecoder h), w1)
     \<and> nativeGetWidth w1 h = Some width \<and> nativeGetHeight w1 h = Some height
     \<and> (\<forall>rs. \<exists>w2. decode_all env h rs w1 = Some w2
            \<and> nativeGetWidth w2 h = Some width \<and> nativeGetHeight w2 h = Some height)"
proof -
  from assms(1) have lt: "stream < length (streams w)" and at: "streams w ! stream = Some content"
    by (auto simp: stream_at_def split: if_splits)
  define h where "h = length (brds w)"
  define brd where "brd = \<lparr>fDecoder = decoder', fWidth = width, fHeight = height\<rparr>"
  define w1 where "w1 = w\<lparr>brds := brds w @ [Some brd]\<rparr>"
  have created: "createBitmapRegionDecoder env stream w = Some (Some (JBitmapRegionDecoder h), w1)"
    using assms lt at
    by (simp add: createBitmapRegionDecoder_def SkImageDecoder_buildTileIndex_def Let_def
          new_SkBitmapRegionDecoder_def GraphicsJNI_createBitmapRegionDecoder_def
          h_def w1_def brd_def)
  have live: "brd_at w1 h = Some brd"
    by (simp add: brd_at_def w1_def h_def)
  have dims: "nativeGetWidth w1 h = Some width \<and> nativeGetHeight w1 h = Some height"
    using live by (simp add: nativeGetWidth_def nativeGetHeight_def brd_def)
  have after: "\<exists>w2. decode_all env h rs w1 = Some w2
      \<and> nativeGetWidth w2 h = Some width \<and> nativeGetHeight w2 h = Some height" for rs
  proof -
    from decode_all_keeps_dimensions [OF live, of env rs]
    obtain w2 d2 where "decode_all env h rs w1 = Some w2"
      and "brd_at w2 h = Some (brd\<lparr>fDecoder := d2\<rparr>)"
      by blast
    then show ?thesis
      by (simp add: nativeGetWidth_def nativeGetHeight_def brd_def)
  qed
  from created dims after show ?thesis by blast
qed

theorem dimensions_fixed_by_construction_witness:
  "stream_at world0 0 = Some [7, 100, 100]
   \<and> Factory sample_skia [7, 100, 100] = Some sample_init
   \<and> buildTileIndex sample_skia (setAllocator sample_skia sample_init) [7, 100, 100]
       = (sample_built, Some (100, 100))
   \<and> createBitmapRegionDecoder sample_skia 0 world0 = Some (Some (JBitmapRegionDecoder 0), world1)
   \<and> nativeGetWidth world1 0 = Some 100 \<and> nativeGetHeight world1 0 = Some 100
   \<and> (\<exists>w2. decode_all sample_skia 0
               [(0, 0, 50, 50, None), (0, 0, 500, 50, Some options0)] world1 = Some w2
          \<and> nativeGetWidth w2 0 = Some 100 \<and> nativeGetHeight w2 0 = Some 100)"
proof -
  have s: "stream_at world0 0 = Some [7, 100, 100]"
    by (simp add: stream_at_def world0_def)
  have f: "Factory sample_skia [7, 100, 100] = Some sample_init"
    by (simp add: sample_skia_def)
  have b: "buildTileIndex sample_skia (setAllocator sample_skia sample_init) [7, 100, 100]
       = (sample_built, Some (100, 100))"
    by (simp add: sample_skia_def sample_built_def)
  have c: "createBitmapRegionDecoder sample_skia 0 world0
       = Some (Some (JBitmapRegionDecoder 0), world1)"
    using s f b
    by (simp add: createBitmapRegionDecoder_def SkImageDecoder_buildTileIndex_def Let_def
          new_SkBitmapRegionDecoder_def GraphicsJNI_createBitmapRegionDecoder_def
          world1_def world0_def)
  from dimensions_fixed_by_construction [OF s f b]
  obtain h w1 where
    1: "createBitmapRegionDecoder sample_skia 0 world0 = Some (Some (JBitmapRegionDecoder h), w1)"
    and 2: "nativeGetWidth w1 h = Some 100" "nativeGetHeight w1 h = Some 100"
    and 3: "\<forall>rs. \<exists>w2. decode_all sample_skia h rs w1 = Some w2
            \<and> nativeGetWidth w2 h = Some 100 \<and> nativeGetHeight w2 h = Some 100"
    by blast
  from 1 c have eq: "h = 0" "w1 = world1" by simp_all
  from 3 eq have 4: "\<exists>w2. decode_all sample_skia 0
               [(0, 0, 50, 50, None), (0, 0, 500, 50, Some options0)] world1 = Some w2
          \<and> nativeGetWidth w2 0 = Some 100 \<and> nativeGetHeight w2 0 = Some 100"
    by blast
  from s f b c 2 eq 4 show ?thesis by blast
qed

subsection \<open>A decode that the backend fails\<close>

text \<open>
  C4. When a decode on a live handle reaches the backend and \<open>decodeSubset\<close> returns
  false, the call returns null and throws nothing (the pending exception is as before),
  whatever the backend's reason; the region decoder is still at its handle, with the
  decoder as \<open>decodeSubset\<close> left it and the same width and height, and every further
  \<open>nativeDecodeRegion\<close> on the handle returns.
\<close>

theorem decode_failure_keeps_handle:
  assumes "brd_at w h = Some brd" and "\<not> cancel_requested options"
    and "backend_answer env brd x y wd ht options = (False, d', bm')"
  shows "\<exists>options' w'.
      nativeDecodeRegion env h x y wd ht options w = Some (None, options', w')
    \<and> pendingIOE w' = pendingIOE w
    \<and> brd_at w' h = Some (brd\<lparr>fDecoder := d'\<rparr>)
    \<and> nativeGetWidth w' h = nativeGetWidth w h
    \<and> nativeGetHeight w' h = nativeGetHeight w h
    \<and> (\<forall>x2 y2 wd2 ht2 options2.
          \<exists>res. nativeDecodeRegion env h x2 y2 wd2 ht2 options2 w' = Some res)"
proof -
  from assms(1) have lt: "h < length (brds w)"
    by (simp add: brd_at_def split: if_splits)
  define w' where "w' = w\<lparr>brds := (brds w)[h := Some (brd\<lparr>fDecoder := d'\<rparr>)],
        calls := calls w @ decode_calls env brd x y wd ht options\<rparr>"
  have r: "nativeDecodeRegion env h x y wd ht options w
      = Some (None, snd (read_options env options), w')"
    unfolding w'_def by (rule nativeDecodeRegion_failed [OF assms])
  have live: "brd_at w' h = Some (brd\<lparr>fDecoder := d'\<rparr>)"
    using lt by (simp add: w'_def brd_at_def)
  have again: "\<exists>res. nativeDecodeRegion env h x2 y2 wd2 ht2 options2 w' = Some res"
    for x2 y2 wd2 ht2 options2
    using nativeDecodeRegion_live [OF live, of env x2 y2 wd2 ht2 options2] by blast
  have dims: "nativeGetWidth w' h = nativeGetWidth w h \<and> nativeGetHeight w' h = nativeGetHeight w h"
    using live assms(1) by (simp add: nativeGetWidth_def nativeGetHeight_def)
  have exc: "pendingIOE w' = pendingIOE w"
    by (simp add: w'_def)
  from r exc live dims again show ?thesis by blast
qed

theorem decode_failure_keeps_handle_witness:
  "brd_at world1 0 = Some \<lparr>fDecoder = sample_built, fWidth = 100, fHeight = 100\<rparr>
   \<and> \<not> cancel_requested (Some options0)
   \<and> backend_answer sample_skia \<lparr>fDecoder = sample_built, fWidth = 100, fHeight = 100\<rparr>
        0 0 500 50 (Some options0) = (False, sample_built, SkBitmap_default)
   \<and> (\<exists>options' w'.
        nativeDecodeRegion sample_skia 0 0 0 500 50 (Some options0) world1
          = Some (None, options', w')
        \<and> pendingIOE w' = None
        \<and> nativeGetWidth w' 0 = Some 100 \<and> nativeGetHeight w' 0 = Some 100
        \<and> (\<exists>res. nativeDecodeRegion sample_skia 0 0 0 50 50 None w' = Some res))"
proof -
  have live: "brd_at world1 0 = Some \<lparr>fDecoder = sample_built, fWidth = 100, fHeight = 100\<rparr>"
    by (simp add: brd_at_def world1_def world0_def)
  have nc: "\<not> cancel_requested (Some options0)"
    by (simp add: cancel_requested_def options0_def)
  have ans: "backend_answer sample_skia \<lparr>fDecoder = sample_built, fWidth = 100, fHeight = 100\<rparr>
        0 0 500 50 (Some options0) = (False, sample_built, SkBitmap_default)"
    by (simp add: backend_answer_def read_options_Some configured_def target_bitmap_def
          make_region_def sample_skia_def options0_def sample_built_def sample_init_def)
  have w: "nativeGetWidth world1 0 = Some 100" "nativeGetHeight world1 0 = Some 100"
    "pendingIOE world1 = None"
    using live by (simp_all add: nativeGetWidth_def nativeGetHeight_def world1_def world0_def)
  from decode_failure_keeps_handle [OF live nc ans] live nc ans w
  show ?thesis by auto
qed

subsection \<open>A decode that succeeds\<close>

text \<open>
  C5. When a decode with options on a live handle succeeds (the cancel flag is not set
  and \<open>decodeSubset\<close> returns true), the options are left with their width and height
  set to those of the decoded bitmap and their MIME field to the string of the decoder's
  format, whether or not a bitmap was supplied for reuse; and when one was, the call
  returns that very bitmap, and the last call it made is \<open>notifyPixelsChanged\<close> on the
  bitmap decoded into.
\<close>

theorem decode_success_updates_options:
  assumes "brd_at w h = Some brd" and "\<not> opt_mCancel opts"
    and "backend_answer env brd x y wd ht (Some opts) = (True, d', bm')"
  shows "\<exists>result w'.
      nativeDecodeRegion env h x y wd ht (Some opts) w
        = Some (result,
                Some (opts\<lparr>opt_width := bm_width bm', opt_height := bm_height bm',
                           opt_mime := getMimeTypeString env (getFormat env d')\<rparr>),
                w')
    \<and> (\<forall>tb. opt_bitmap opts = Some tb \<longrightarrow>
          result = Some tb
          \<and> calls w' = calls w @ decode_calls env brd x y wd ht (Some opts)
                          @ [NotifyPixelsChanged bm'])"
proof -
  have nc: "\<not> cancel_requested (Some opts)"
    using assms(2) by (simp add: cancel_requested_def)
  show ?thesis
  proof (cases "opt_bitmap opts")
    case None
    then have t: "tileBitmap (fst (read_options env (Some opts))) = None"
      by (simp add: read_options_Some)
    show ?thesis
      using None
      by (simp add: nativeDecodeRegion_fresh [OF assms(1) nc assms(3) t] read_options_Some
            update_options_def)
  next
    case (Some tb)
    then have t: "tileBitmap (fst (read_options env (Some opts))) = Some tb"
      by (simp add: read_options_Some)
    show ?thesis
      using Some
      by (simp add: nativeDecodeRegion_reused [OF assms(1) nc assms(3) t] read_options_Some
            update_options_def)
  qed
qed

theorem decode_success_updates_options_witness:
  "brd_at world1 0 = Some \<lparr>fDecoder = sample_built, fWidth = 100, fHeight = 100\<rparr>
   \<and> \<not> opt_mCancel (options0\<lparr>opt_bitmap := Some (JRef 5)\<rparr>)
   \<and> backend_answer sample_skia \<lparr>fDecoder = sample_built, fWidth = 100, fHeight = 100\<rparr>
        10 20 50 30 (Some (options0\<lparr>opt_bitmap := Some (JRef 5)\<rparr>))
       = (True, sample_built, \<lparr>bm_width = 50, bm_height = 30, bm_pixelRef = Some 0\<rparr>)
   \<and> (\<exists>w'. nativeDecodeRegion sample_skia 0 10 20 50 30
               (Some (options0\<lparr>opt_bitmap := Some (JRef 5)\<rparr>)) world1
          = Some (Some (JRef 5),
                  Some (options0\<lparr>opt_width := 50, opt_height := 30,
                                 opt_mime := Some ''image/sample'',
                                 opt_bitmap := Some (JRef 5)\<rparr>), w')
        \<and> last (calls w')
            = NotifyPixelsChanged \<lparr>bm_width = 50, bm_height = 30, bm_pixelRef = Some 0\<rparr>)"
proof -
  have live: "brd_at world1 0 = Some \<lparr>fDecoder = sample_built, fWidth = 100, fHeight = 100\<rparr>"
    by (simp add: brd_at_def world1_def world0_def)
  have nc: "\<not> opt_mCancel (options0\<lparr>opt_bitmap := Some (JRef 5)\<rparr>)"
    by (simp add: options0_def)
  have ans: "backend_answer sample_skia \<lparr>fDecoder = sample_built, fWidth = 100, fHeight = 100\<rparr>
        10 20 50 30 (Some (options0\<lparr>opt_bitmap := Some (JRef 5)\<rparr>))
       = (True, sample_built, \<lparr>bm_width = 50, bm_height = 30, bm_pixelRef = Some 0\<rparr>)"
    by (simp add: backend_answer_def read_options_Some configured_def target_bitmap_def
          make_region_def sample_skia_def options0_def sample_built_def sample_init_def)
  have b: "opt_bitmap (options0\<lparr>opt_bitmap := Some (JRef 5)\<rparr>) = Some (JRef 5)"
    by simp
  have m: "getMimeTypeString sample_skia (getFormat sample_skia sample_built) = Some ''image/sample''"
    by (simp add: sample_skia_def)
  from decode_success_updates_options [OF live nc ans]
  obtain result w' where
    1: "nativeDecodeRegion sample_skia 0 10 20 50 30
          (Some (options0\<lparr>opt_bitmap := Some (JRef 5)\<rparr>)) world1
        = Some (result,
            Some (options0\<lparr>opt_bitmap := Some (JRef 5),
                   opt_width := bm_width \<lparr>bm_width = 50, bm_height = 30, bm_pixelRef = Some 0\<rparr>,
                   opt_height := bm_height \<lparr>bm_width = 50, bm_height = 30, bm_pixelRef = Some 0\<rparr>,
                   opt_mime := getMimeTypeString sample_skia (getFormat sample_skia sample_built)\<rparr>),
            w')"
    and 2: "\<forall>tb. opt_bitmap (options0\<lparr>opt_bitmap := Some (JRef 5)\<rparr>) = Some tb \<longrightarrow>
          result = Some tb
          \<and> calls w' = calls world1 @ decode_calls sample_skia
                \<lparr>fDecoder = sample_built, fWidth = 100, fHeight = 100\<rparr> 10 20 50 30
                (Some (options0\<lparr>opt_bitmap := Some (JRef 5)\<rparr>))
              @ [NotifyPixelsChanged \<lparr>bm_width = 50, bm_height = 30, bm_pixelRef = Some 0\<rparr>]"
    by blast
  from 2 b have 3: "result = Some (JRef 5)"
    and 4: "last (calls w')
        = NotifyPixelsChanged \<lparr>bm_width = 50, bm_height = 30, bm_pixelRef = Some 0\<rparr>"
    by simp_all
  from 1 3 m have 5: "nativeDecodeRegion sample_skia 0 10 20 50 30
               (Some (options0\<lparr>opt_bitmap := Some (JRef 5)\<rparr>)) world1
          = Some (Some (JRef 5),
                  Some (options0\<lparr>opt_width := 50, opt_height := 30,
                                 opt_mime := Some ''image/sample'',
                                 opt_bitmap := Some (JRef 5)\<rparr>), w')"
    by (simp add: options0_def)
  from live nc ans 4 5 show ?thesis by blast
qed

subsection \<open>A decode without options\<close>

text \<open>
  C6. A decode with null options on a live handle returns, leaves the options null, and
  runs with the defaults: the locals are sample size 1, colour type unknown, dither
  true, prefer-quality false, require-unpremultiplied false and no bitmap to reuse,
  and the calls it makes up to \<open>decodeSubset\<close> are the setters with these values and
  \<open>decodeSubset\<close> on the decoder so configured, with an empty bitmap, the requested
  rectangle and the unknown colour type.
\<close>

theorem null_options_defaults:
  assumes "brd_at w h = Some brd"
  shows "\<exists>result w'.
      nativeDecodeRegion env h x y wd ht None w = Some (result, None, w')
    \<and> fst (read_options env None)
        = \<lparr>tileBitmap = None, sampleSize = 1, prefColorType = kUnknown_SkColorType,
           doDither = True, preferQualityOverSpeed = False, requireUnpremultiplied = False\<rparr>
    \<and> calls w' = calls w @
        [SetDitherImage True, SetPreferQualityOverSpeed False,
         SetRequireUnpremultipliedColors False, SetSampleSize 1,
         DecodeSubset
           (setSampleSize env 1
              (setRequireUnpremultipliedColors env False
                 (setPreferQualityOverSpeed env False
                    (setDitherImage env True (fDecoder brd)))))
           SkBitmap_default (make_region x y wd ht) kUnknown_SkColorType]"
proof -
  have nc: "\<not> cancel_requested None"
    by (simp add: cancel_requested_def)
  have t: "tileBitmap (fst (read_options env None)) = None"
    by (simp add: read_options_None)
  have cs: "decode_calls env brd x y wd ht None =
        [SetDitherImage True, SetPreferQualityOverSpeed False,
         SetRequireUnpremultipliedColors False, SetSampleSize 1,
         DecodeSubset
           (setSampleSize env 1
              (setRequireUnpremultipliedColors env False
                 (setPreferQualityOverSpeed env False
                    (setDitherImage env True (fDecoder brd)))))
           SkBitmap_default (make_region x y wd ht) kUnknown_SkColorType]"
    by (simp add: decode_calls_def setter_calls_def read_options_None configured_def
          target_bitmap_def)
  obtain ok d' bm' where ans: "backend_answer env brd x y wd ht None = (ok, d', bm')"
    by (cases "backend_answer env brd x y wd ht None") auto
  show ?thesis
  proof (cases ok)
    case True
    with ans have a: "backend_answer env brd x y wd ht None = (True, d', bm')" by simp
    show ?thesis
      by (simp add: nativeDecodeRegion_fresh [OF assms nc a t] read_options_None cs
            update_options_def)
  next
    case False
    with ans have a: "backend_answer env brd x y wd ht None = (False, d', bm')" by simp
    show ?thesis
      by (simp add: nativeDecodeRegion_failed [OF assms nc a] read_options_None cs)
  qed
qed

theorem null_options_defaults_witness:
  "brd_at world1 0 = Some \<lparr>fDecoder = sample_built, fWidth = 100, fHeight = 100\<rparr>
   \<and> (\<exists>result w'.
        nativeDecodeRegion sample_skia 0 0 0 50 50 None world1 = Some (result, None, w')
        \<and> calls w' =
            [SetDitherImage True, SetPreferQualityOverSpeed False,
             SetRequireUnpremultipliedColors False, SetSampleSize 1,
             DecodeSubset (sample_built\<lparr>sd_dither := True\<rparr>)
               \<lparr>bm_width = 0, bm_height = 0, bm_pixelRef = None\<rparr>
               \<lparr>fLeft = 0, fTop = 0, fRight = 50, fBottom = 50\<rparr> kUnknown_SkColorType])"
proof -
  have live: "brd_at world1 0 = Some \<lparr>fDecoder = sample_built, fWidth = 100, fHeight = 100\<rparr>"
    by (simp add: brd_at_def world1_def world0_def)
  have d: "setSampleSize sample_skia 1
              (setRequireUnpremultipliedColors sample_skia False
                 (setPreferQualityOverSpeed sample_skia False
                    (setDitherImage sample_skia True sample_built)))
           = sample_built\<lparr>sd_dither := True\<rparr>"
    by (simp add: sample_skia_def sample_built_def sample_init_def)
  from null_options_defaults [OF live, of sample_skia 0 0 50 50]
  obtain result w' where
    1: "nativeDecodeRegion sample_skia 0 0 0 50 50 None world1 = Some (result, None, w')"
    and 2: "calls w' = calls world1 @
        [SetDitherImage True, SetPreferQualityOverSpeed False,
         SetRequireUnpremultipliedColors False, SetSampleSize 1,
         DecodeSubset
           (setSampleSize sample_skia 1
              (setRequireUnpremultipliedColors sample_skia False
                 (setPreferQualityOverSpeed sample_skia False
                    (setDitherImage sample_skia True
                       (fDecoder \<lparr>fDecoder = sample_built, fWidth = 100, fHeight = 100\<rparr>)))))
           SkBitmap_default (make_region 0 0 50 50) kUnknown_SkColorType]"
    by blast
  from 2 d have 3: "calls w' =
            [SetDitherImage True, SetPreferQualityOverSpeed False,
             SetRequireUnpremultipliedColors False, SetSampleSize 1,
             DecodeSubset (sample_built\<lparr>sd_dither := True\<rparr>)
               \<lparr>bm_width = 0, bm_height = 0, bm_pixelRef = None\<rparr>
               \<lparr>fLeft = 0, fTop = 0, fRight = 50, fBottom = 50\<rparr> kUnknown_SkColorType]"
    by (simp add: world1_def world0_def SkBitmap_default_def make_region_def)
  from live 1 3 show ?thesis by blast
qed

subsection \<open>The rectangle\<close>

text \<open>
  C7. A decode on a live handle that the cancel check does not stop hands exactly one
  rectangle to \<open>decodeSubset\<close>: left \<open>start_x\<close>, top \<open>start_y\<close>, right
  \<open>start_x + width\<close>, bottom \<open>start_y + height\<close> (the 32-bit sums), whatever the
  dimensions of the image and however the four numbers lie: nothing is clamped.
\<close>

theorem region_forwarded_unclamped:
  assumes "brd_at w h = Some brd" and "\<not> cancel_requested options"
  shows "\<exists>result options' w'.
      nativeDecodeRegion env h start_x start_y width height options w
        = Some (result, options', w')
    \<and> decoded_rects (calls w') = decoded_rects (calls w) @
        [\<lparr>fLeft = start_x, fTop = start_y,
          fRight = start_x + width, fBottom = start_y + height\<rparr>]"
proof -
  let ?l = "fst (read_options env options)"
  obtain ok d' bm' where
    ans: "backend_answer env brd start_x start_y width height options = (ok, d', bm')"
    by (cases "backend_answer env brd start_x start_y width height options") auto
  have r: "decoded_rects (decode_calls env brd start_x start_y width height options)
      = [\<lparr>fLeft = start_x, fTop = start_y,
          fRight = start_x + width, fBottom = start_y + height\<rparr>]"
    by (simp add: decoded_rects_decode_calls make_region_def)
  show ?thesis
  proof (cases ok)
    case False
    with ans have a: "backend_answer env brd start_x start_y width height options
        = (False, d', bm')" by simp
    show ?thesis
      by (simp add: nativeDecodeRegion_failed [OF assms a] decoded_rects_append r)
  next
    case True
    with ans have a: "backend_answer env brd start_x start_y width height options
        = (True, d', bm')" by simp
    show ?thesis
    proof (cases "tileBitmap ?l")
      case None
      show ?thesis
        by (simp add: nativeDecodeRegion_fresh [OF assms a None] decoded_rects_append r)
    next
      case (Some tb)
      show ?thesis
        by (simp add: nativeDecodeRegion_reused [OF assms a Some] decoded_rects_append r)
    qed
  qed
qed

theorem region_forwarded_unclamped_witness:
  "brd_at world1 0 = Some \<lparr>fDecoder = sample_built, fWidth = 100, fHeight = 100\<rparr>
   \<and> \<not> cancel_requested (Some options0)
   \<and> (\<exists>result options' w'.
        nativeDecodeRegion sample_skia 0 90 (- 5) 500 0 (Some options0) world1
          = Some (result, options', w')
        \<and> decoded_rects (calls w')
            = [\<lparr>fLeft = 90, fTop = - 5, fRight = 590, fBottom = - 5\<rparr>])"
proof -
  have live: "brd_at world1 0 = Some \<lparr>fDecoder = sample_built, fWidth = 100, fHeight = 100\<rparr>"
    by (simp add: brd_at_def world1_def world0_def)
  have nc: "\<not> cancel_requested (Some options0)"
    by (simp add: cancel_requested_def options0_def)
  from region_forwarded_unclamped [OF live nc, of sample_skia 90 "- 5" 500 0]
  obtain result options' w' where
    1: "nativeDecodeRegion sample_skia 0 90 (- 5) 500 0 (Some options0) world1
          = Some (result, options', w')"
    and 2: "decoded_rects (calls w') = decoded_rects (calls world1) @
        [\<lparr>fLeft = 90, fTop = - 5, fRight = 90 + 500, fBottom = - 5 + 0\<rparr>]"
    by blast
  from 2 have 3: "decoded_rects (calls w')
            = [\<lparr>fLeft = 90, fTop = - 5, fRight = 590, fBottom = - 5\<rparr>]"
    by (simp add: world1_def world0_def)
  from live nc 1 3 show ?thesis by blast
qed

text \<open>
  The sums are those of 32-bit words. When the integer sums fit in 32 bits, right and
  bottom are the integer sums.
\<close>

lemma make_region_no_overflow:
  assumes "- (2 ^ 31) \<le> sint start_x + sint width" and "sint start_x + sint width < 2 ^ 31"
    and "- (2 ^ 31) \<le> sint start_y + sint height" and "sint start_y + sint height < 2 ^ 31"
  shows "sint (fRight (make_region start_x start_y width height)) = sint start_x + sint width
    \<and> sint (fBottom (make_region start_x start_y width height)) = sint start_y + sint height"
  using assms
  by (simp add: make_region_def sint_word_ariths signed_take_bit_int_eq_self)

subsection \<open>The flags of a fresh bitmap\<close>

text \<open>
  C8. When a decode on a live handle succeeds and no bitmap was supplied for reuse, the
  call returns the bitmap created from the allocator's storage with creation flags that
  are \<open>kBitmapCreateFlag_Premultiplied\<close> when unpremultiplied output is not required
  and 0 when it is; so, the constant being a non-zero flag, the flag is set if and only
  if unpremultiplied output is not required. Unpremultiplied output is required exactly
  when there are options and their premultiplied field is false.
\<close>

theorem fresh_bitmap_premultiplied_flag:
  assumes "brd_at w h = Some brd" and "\<not> cancel_requested options"
    and "backend_answer env brd x y wd ht options = (True, d', bm')"
    and "tileBitmap (fst (read_options env options)) = None"
    and "kBitmapCreateFlag_Premultiplied env \<noteq> 0"
  shows "\<exists>flags options' w'.
      nativeDecodeRegion env h x y wd ht options w
        = Some (Some (JBitmap (fst (getStorageObjAndReset env d')) flags), options', w')
    \<and> flags = (if requireUnpremultiplied (fst (read_options env options)) then 0
                else kBitmapCreateFlag_Premultiplied env)
    \<and> (flags AND kBitmapCreateFlag_Premultiplied env \<noteq> 0
          \<longleftrightarrow> \<not> requireUnpremultiplied (fst (read_options env options)))
    \<and> requireUnpremultiplied (fst (read_options env options))
        = (case options of None \<Rightarrow> False | Some opts \<Rightarrow> \<not> opt_premultiplied opts)"
proof -
  have req: "requireUnpremultiplied (fst (read_options env options))
        = (case options of None \<Rightarrow> False | Some opts \<Rightarrow> \<not> opt_premultiplied opts)"
    by (cases options) (simp_all add: read_options_None read_options_Some)
  have fl: "create_flags env r = (if r then 0 else kBitmapCreateFlag_Premultiplied env)" for r
    by (simp add: create_flags_def)
  show ?thesis
    using assms(5) req
    by (simp add: nativeDecodeRegion_fresh [OF assms(1-4)] fl)
qed

theorem fresh_bitmap_premultiplied_flag_witness:
  "brd_at world1 0 = Some \<lparr>fDecoder = sample_built, fWidth = 100, fHeight = 100\<rparr>
   \<and> \<not> cancel_requested (Some (options0\<lparr>opt_premultiplied := False\<rparr>))
   \<and> backend_answer sample_skia \<lparr>fDecoder = sample_built, fWidth = 100, fHeight = 100\<rparr>
        0 0 50 50 (Some (options0\<lparr>opt_premultiplied := False\<rparr>))
       = (True, sample_built\<lparr>sd_unpremul := True\<rparr>,
          \<lparr>bm_width = 50, bm_height = 50, bm_pixelRef = None\<rparr>)
   \<and> tileBitmap (fst (read_options sample_skia (Some (options0\<lparr>opt_premultiplied := False\<rparr>))))
       = None
   \<and> kBitmapCreateFlag_Premultiplied sample_skia \<noteq> 0
   \<and> (\<exists>options' w'.
        nativeDecodeRegion sample_skia 0 0 0 50 50
          (Some (options0\<lparr>opt_premultiplied := False\<rparr>)) world1
        = Some (Some (JBitmap 0 0), options', w'))"
proof -
  have live: "brd_at world1 0 = Some \<lparr>fDecoder = sample_built, fWidth = 100, fHeight = 100\<rparr>"
    by (simp add: brd_at_def world1_def world0_def)
  have nc: "\<not> cancel_requested (Some (options0\<lparr>opt_premultiplied := False\<rparr>))"
    by (simp add: cancel_requested_def options0_def)
  have ans: "backend_answer sample_skia \<lparr>fDecoder = sample_built, fWidth = 100, fHeight = 100\<rparr>
        0 0 50 50 (Some (options0\<lparr>opt_premultiplied := False\<rparr>))
       = (True, sample_built\<lparr>sd_unpremul := True\<rparr>,
          \<lparr>bm_width = 50, bm_height = 50, bm_pixelRef = None\<rparr>)"
    by (simp add: backend_answer_def read_options_Some configured_def target_bitmap_def
          make_region_def sample_skia_def options0_def sample_built_def sample_init_def
          SkBitmap_default_def)
  have t: "tileBitmap (fst (read_options sample_skia
              (Some (options0\<lparr>opt_premultiplied := False\<rparr>)))) = None"
    by (simp add: read_options_Some options0_def)
  have k: "kBitmapCreateFlag_Premultiplied sample_skia \<noteq> 0"
    by (simp add: sample_skia_def)
  have st: "fst (getStorageObjAndReset sample_skia (sample_built\<lparr>sd_unpremul := True\<rparr>)) = 0"
    by (simp add: sample_skia_def)
  have ru: "requireUnpremultiplied (fst (read_options sample_skia
              (Some (options0\<lparr>opt_premultiplied := False\<rparr>))))"
    by (simp add: read_options_Some)
  from fresh_bitmap_premultiplied_flag [OF live nc ans t k]
  obtain flags options' w' where
    1: "nativeDecodeRegion sample_skia 0 0 0 50 50
          (Some (options0\<lparr>opt_premultiplied := False\<rparr>)) world1
        = Some (Some (JBitmap (fst (getStorageObjAndReset sample_skia
                  (sample_built\<lparr>sd_unpremul := True\<rparr>))) flags), options', w')"
    and 2: "flags = (if requireUnpremultiplied (fst (read_options sample_skia
              (Some (options0\<lparr>opt_premultiplied := False\<rparr>)))) then 0
                else kBitmapCreateFlag_Premultiplied sample_skia)"
    by blast
  from 2 ru have 3: "flags = 0" by simp
  from 1 3 st have 4: "nativeDecodeRegion sample_skia 0 0 0 50 50
          (Some (options0\<lparr>opt_premultiplied := False\<rparr>)) world1
        = Some (Some (JBitmap 0 0), options', w')"
    by simp
  from live nc ans t k 4 show ?thesis by blast
qed

subsection \<open>The cancellation guard\<close>

text \<open>
  C9. Every decode on a live handle returns, and when it does the registrations for
  cancellation are what they were before the call: on the path the cancel check stops,
  on the path the backend fails, and on both paths of success. With options, the part
  of the call that follows the construction of \<open>adc\<close> ran with the handle registered.
\<close>

theorem cancel_registration_removed:
  assumes "brd_at w h = Some brd"
  shows "\<exists>result options' w'.
      nativeDecodeRegion env h x y wd ht options w = Some (result, options', w')
    \<and> gAutoDecoderCancel w' = gAutoDecoderCancel w
    \<and> gAutoDecoderCancel (AutoDecoderCancel_ctor options h w)
        = (if options \<noteq> None then h # gAutoDecoderCancel w else gAutoDecoderCancel w)"
proof -
  from nativeDecodeRegion_live [OF assms, of env x y wd ht options]
  obtain result options' w' where
    "nativeDecodeRegion env h x y wd ht options w = Some (result, options', w')"
    and "gAutoDecoderCancel w' = gAutoDecoderCancel w"
    by blast
  then show ?thesis
    by (simp add: AutoDecoderCancel_ctor_def)
qed

theorem cancel_registration_removed_witness:
  "brd_at (world1\<lparr>gAutoDecoderCancel := [3]\<rparr>) 0
     = Some \<lparr>fDecoder = sample_built, fWidth = 100, fHeight = 100\<rparr>
   \<and> (\<exists>result options' w'.
        nativeDecodeRegion sample_skia 0 0 0 50 50 (Some (options0\<lparr>opt_mCancel := True\<rparr>))
          (world1\<lparr>gAutoDecoderCancel := [3]\<rparr>) = Some (result, options', w')
        \<and> gAutoDecoderCancel w' = [3])"
proof -
  have live: "brd_at (world1\<lparr>gAutoDecoderCancel := [3]\<rparr>) 0
     = Some \<lparr>fDecoder = sample_built, fWidth = 100, fHeight = 100\<rparr>"
    by (simp add: brd_at_def world1_def world0_def)
  from cancel_registration_removed [OF live, of sample_skia 0 0 50 50
      "Some (options0\<lparr>opt_mCancel := True\<rparr>)"] live
  show ?thesis by auto
qed

subsection \<open>The options after a failure\<close>

text \<open>
  C10. With options, the width and height of the options are set to -1 and their MIME
  field to null before anything is decoded; and when the decode on a live handle then
  fails, because the cancel flag is set or because \<open>decodeSubset\<close> returns false, the
  call returns null and the caller finds the options with width -1, height -1 and a
  null MIME field, all other fields as they were.
\<close>

theorem options_reset_on_failure:
  assumes "brd_at w h = Some brd"
    and "opt_mCancel opts \<or> \<not> fst (backend_answer env brd x y wd ht (Some opts))"
  shows "\<exists>w'.
      nativeDecodeRegion env h x y wd ht (Some opts) w
        = Some (None, Some (opts\<lparr>opt_width := - 1, opt_height := - 1, opt_mime := None\<rparr>), w')
    \<and> snd (read_options env (Some opts))
        = Some (opts\<lparr>opt_width := - 1, opt_height := - 1, opt_mime := None\<rparr>)"
proof (cases "opt_mCancel opts")
  case True
  then have c: "cancel_requested (Some opts)"
    by (simp add: cancel_requested_def)
  show ?thesis
    by (simp add: nativeDecodeRegion_cancelled [OF assms(1) c] read_options_Some)
next
  case False
  then have nc: "\<not> cancel_requested (Some opts)"
    by (simp add: cancel_requested_def)
  from False assms(2) obtain d' bm' where
    a: "backend_answer env brd x y wd ht (Some opts) = (False, d', bm')"
    by (cases "backend_answer env brd x y wd ht (Some opts)") auto
  show ?thesis
    by (simp add: nativeDecodeRegion_failed [OF assms(1) nc a] read_options_Some)
qed

theorem options_reset_on_failure_witness:
  "brd_at world1 0 = Some \<lparr>fDecoder = sample_built, fWidth = 100, fHeight = 100\<rparr>
   \<and> \<not> opt_mCancel (options0\<lparr>opt_width := 7, opt_mime := Some ''image/old''\<rparr>)
   \<and> \<not> fst (backend_answer sample_skia \<lparr>fDecoder = sample_built, fWidth = 100, fHeight = 100\<rparr>
              0 0 500 50 (Some (options0\<lparr>opt_width := 7, opt_mime := Some ''image/old''\<rparr>)))
   \<and> (\<exists>w'. nativeDecodeRegion sample_skia 0 0 0 500 50
              (Some (options0\<lparr>opt_width := 7, opt_mime := Some ''image/old''\<rparr>)) world1
         = Some (None, Some (options0\<lparr>opt_width := - 1, opt_height := - 1\<rparr>), w'))"
proof -
  have live: "brd_at world1 0 = Some \<lparr>fDecoder = sample_built, fWidth = 100, fHeight = 100\<rparr>"
    by (simp add: brd_at_def world1_def world0_def)
  have nc: "\<not> opt_mCancel (options0\<lparr>opt_width := 7, opt_mime := Some ''image/old''\<rparr>)"
    by (simp add: options0_def)
  have ans: "\<not> fst (backend_answer sample_skia
              \<lparr>fDecoder = sample_built, fWidth = 100, fHeight = 100\<rparr>
              0 0 500 50 (Some (options0\<lparr>opt_width := 7, opt_mime := Some ''image/old''\<rparr>)))"
    by (simp add: backend_answer_def read_options_Some configured_def target_bitmap_def
          make_region_def sample_skia_def options0_def sample_built_def sample_init_def)
  from ans have hyp: "opt_mCancel (options0\<lparr>opt_width := 7, opt_mime := Some ''image/old''\<rparr>)
      \<or> \<not> fst (backend_answer sample_skia
              \<lparr>fDecoder = sample_built, fWidth = 100, fHeight = 100\<rparr>
              0 0 500 50 (Some (options0\<lparr>opt_width := 7, opt_mime := Some ''image/old''\<rparr>)))"
    by blast
  from options_reset_on_failure [OF live hyp]
  obtain w' where 1: "nativeDecodeRegion sample_skia 0 0 0 500 50
              (Some (options0\<lparr>opt_width := 7, opt_mime := Some ''image/old''\<rparr>)) world1
         = Some (None,
             Some (options0\<lparr>opt_width := 7, opt_mime := Some ''image/old'',
                            opt_width := - 1, opt_height := - 1, opt_mime := None\<rparr>), w')"
    by blast
  have "options0\<lparr>opt_width := 7, opt_mime := Some ''image/old'',
                 opt_width := - 1, opt_height := - 1, opt_mime := None\<rparr>
        = options0\<lparr>opt_width := - 1, opt_height := - 1\<rparr>"
    by (simp add: options0_def)
  with 1 have 2: "nativeDecodeRegion sample_skia 0 0 0 500 50
              (Some (options0\<lparr>opt_width := 7, opt_mime := Some ''image/old''\<rparr>)) world1
         = Some (None, Some (options0\<lparr>opt_width := - 1, opt_height := - 1\<rparr>), w')"
    by simp
  from live nc ans 2 show ?thesis by blast
qed

end
